theory Spec2Isabelle
  imports Complex_Main
begin

section \<open>Values of the host language\<close>

text \<open>
  The validators of \<^verbatim>\<open>types.ts\<close> receive arbitrary JavaScript values and inspect them
  at run time. A JavaScript \<^verbatim>\<open>number\<close> and a \<^verbatim>\<open>BigNumber\<close> of bignumber.js are both
  either a finite value, one of the two infinities, or NaN. Finite values are kept as
  rationals: every double and every decimal BigNumber is one, comparison and the
  integrality test on them are exact, and a negative zero is the rational zero (both
  libraries compare it equal to zero).
\<close>

datatype numeric = Finite rat | Infinite bool | NaN

type_synonym number = numeric
type_synonym BigNumber = numeric

text \<open>\<^verbatim>\<open>x <= y\<close> and \<^verbatim>\<open>x < y\<close>; every comparison with NaN is false. The flag of
  \<open>Infinite\<close> is true for the negative infinity.\<close>

fun num_le :: "numeric \<Rightarrow> numeric \<Rightarrow> bool" where
  "num_le (Finite a) (Finite b) = (a \<le> b)"
| "num_le (Finite a) (Infinite neg) = (\<not> neg)"
| "num_le (Infinite neg) (Finite b) = neg"
| "num_le (Infinite n1) (Infinite n2) = (n1 \<or> \<not> n2)"
| "num_le NaN _ = False"
| "num_le _ NaN = False"

fun num_lt :: "numeric \<Rightarrow> numeric \<Rightarrow> bool" where
  "num_lt (Finite a) (Finite b) = (a < b)"
| "num_lt (Finite a) (Infinite neg) = (\<not> neg)"
| "num_lt (Infinite neg) (Finite b) = neg"
| "num_lt (Infinite n1) (Infinite n2) = (n1 \<and> \<not> n2)"
| "num_lt NaN _ = False"
| "num_lt _ NaN = False"

text \<open>\<^verbatim>\<open>Number.isInteger\<close> and \<^verbatim>\<open>BigNumber.prototype.isInteger\<close>: finite, with no
  fractional part.\<close>

fun isInteger :: "numeric \<Rightarrow> bool" where
  "isInteger (Finite r) = (of_int \<lfloor>r\<rfloor> = r)"
| "isInteger _ = False"

definition isGreaterThanOrEqualTo :: "BigNumber \<Rightarrow> BigNumber \<Rightarrow> bool" where
  "isGreaterThanOrEqualTo x y = num_le y x"

definition isLessThanOrEqualTo :: "BigNumber \<Rightarrow> BigNumber \<Rightarrow> bool" where
  "isLessThanOrEqualTo x y = num_le x y"

text \<open>
  The values a validator can be handed. An object is the list of its own enumerable
  properties in insertion order (the order of \<^verbatim>\<open>Object.keys\<close>); a BigNumber instance is an
  object of its own kind. Arrays, buffers and functions are not among the values: no
  validator modelled here expects one.
\<close>

datatype jsval =
    JUndefined
  | JNull
  | JBoolean bool
  | JNumber number
  | JString string
  | JBigNumber BigNumber
  | JObject "(string \<times> jsval) list"

text \<open>
  \<^verbatim>\<open>object[key]\<close> and \<^verbatim>\<open>Object.keys(object)\<close>. No key of a shape below is a property of
  \<^verbatim>\<open>Object.prototype\<close> or one of the internal fields \<^verbatim>\<open>s\<close>, \<^verbatim>\<open>e\<close>, \<^verbatim>\<open>c\<close> of a
  BigNumber instance, so reading a key that is not an own property gives
  \<^verbatim>\<open>undefined\<close>.
\<close>

fun get :: "jsval \<Rightarrow> string \<Rightarrow> jsval" where
  "get (JObject kvs) key = (case map_of kvs key of Some v \<Rightarrow> v | None \<Rightarrow> JUndefined)"
| "get _ key = JUndefined"

fun own_keys :: "jsval \<Rightarrow> string list" where
  "own_keys (JObject kvs) = map fst kvs"
| "own_keys (JBigNumber _) = [''s'', ''e'', ''c'']"
| "own_keys _ = []"

text \<open>
  \<^verbatim>\<open>BigNumber.isBigNumber(value)\<close> looks for the marker property \<^verbatim>\<open>_isBigNumber\<close>, which
  every instance inherits; a plain object that sets the marker itself passes the test
  too, without being an instance.
\<close>

fun isBigNumber :: "jsval \<Rightarrow> bool" where
  "isBigNumber (JBigNumber _) = True"
| "isBigNumber (JObject kvs) = (get (JObject kvs) ''_isBigNumber'' = JBoolean True)"
| "isBigNumber _ = False"

section \<open>The predicates of the validation library\<close>

text \<open>
  A predicate of \<^verbatim>\<open>ow\<close> checks the type of the value and then runs its validators in
  the order they were chained, raising an \<^verbatim>\<open>ArgumentError\<close> at the first that fails. The
  error is kept as a value that says which check failed; \<open>Inr ()\<close> is a value that
  passed. A \<^verbatim>\<open>TypeError\<close> raised inside a validator function leaves the predicate as
  the \<^verbatim>\<open>ArgumentError\<close> does and is an error value as well. Some validators call into
  the native address engine: every predicate returns, with its verdict, the calls it
  made, in order.
\<close>

datatype NetworkEnum = Mainnet | Testnet | Devnet

datatype native_call =
    IsTransferAddressValid string NetworkEnum
  | IsStakingAddressValid string

datatype ow_error =
    NotOfType string
  | Message string
  | TypeError string
  | NotInteger
  | NotGreaterThan rat
  | NotGreaterThanOrEqual rat
  | NotInRange rat rat
  | NoMatch
  | InProperty string ow_error
  | UnexpectedProperty string

type_synonym 'a traced = "native_call list \<times> 'a"
type_synonym 'a validator = "'a \<Rightarrow> ow_error option traced"
type_synonym predicate = "jsval \<Rightarrow> (ow_error + unit) traced"

fun validators :: "'a validator list \<Rightarrow> 'a \<Rightarrow> (ow_error + unit) traced" where
  "validators [] x = ([], Inr ())"
| "validators (f # fs) x =
     (case f x of
        (t, Some e) \<Rightarrow> (t, Inl e)
      | (t, None) \<Rightarrow> (case validators fs x of (t', r) \<Rightarrow> (t @ t', r)))"

text \<open>\<^verbatim>\<open>ow.number\<close>, \<^verbatim>\<open>ow.string\<close>, \<^verbatim>\<open>ow.object\<close> with the validators chained on them.
  \<^verbatim>\<open>ow.object\<close> admits every non-null object, a BigNumber instance included. Every use
  of \<^verbatim>\<open>ow.number\<close> below chains \<^verbatim>\<open>integer\<close>, so NaN is rejected whether or not the type
  test of the library's version lets it pass.\<close>

definition ow_number :: "number validator list \<Rightarrow> predicate" where
  "ow_number fs value =
     (case value of JNumber n \<Rightarrow> validators fs n | _ \<Rightarrow> ([], Inl (NotOfType ''number'')))"

definition ow_string :: "string validator list \<Rightarrow> predicate" where
  "ow_string fs value =
     (case value of JString s \<Rightarrow> validators fs s | _ \<Rightarrow> ([], Inl (NotOfType ''string'')))"

definition ow_object :: "jsval validator list \<Rightarrow> predicate" where
  "ow_object fs value =
     (case value of
        JObject _ \<Rightarrow> validators fs value
      | JBigNumber _ \<Rightarrow> validators fs value
      | _ \<Rightarrow> ([], Inl (NotOfType ''object'')))"

text \<open>\<^verbatim>\<open>ow.optional\<close>: \<^verbatim>\<open>undefined\<close> passes without any check.\<close>

definition ow_optional :: "predicate \<Rightarrow> predicate" where
  "ow_optional p value = (if value = JUndefined then ([], Inr ()) else p value)"

text \<open>A validator that decides by itself, and \<^verbatim>\<open>.validate(fn)\<close> with the message of
  \<^verbatim>\<open>fn\<close>. The function \<^verbatim>\<open>fn\<close> computes the flag \<^verbatim>\<open>validator\<close> or raises (\<open>Inl\<close>);
  \<open>no_throw\<close> is a computation that cannot raise.\<close>

definition check :: "('a \<Rightarrow> bool) \<Rightarrow> ow_error \<Rightarrow> 'a validator" where
  "check ok e x = ([], if ok x then None else Some e)"

definition no_throw :: "'b traced \<Rightarrow> (ow_error + 'b) traced" where
  "no_throw r = (case r of (t, x) \<Rightarrow> (t, Inr x))"

definition validate :: "('a \<Rightarrow> (ow_error + bool) traced) \<Rightarrow> string \<Rightarrow> 'a validator" where
  "validate fn message x =
     (case fn x of
        (t, Inl e) \<Rightarrow> (t, Some e)
      | (t, Inr ok) \<Rightarrow> (t, if ok then None else Some (Message message)))"

definition integer :: "number validator" where
  "integer = check isInteger NotInteger"

definition greaterThan_ow :: "rat \<Rightarrow> number validator" where
  "greaterThan_ow k = check (\<lambda>n. num_lt (Finite k) n) (NotGreaterThan k)"

definition greaterThanOrEqual :: "rat \<Rightarrow> number validator" where
  "greaterThanOrEqual k = check (\<lambda>n. num_le (Finite k) n) (NotGreaterThanOrEqual k)"

definition inRange :: "rat \<Rightarrow> rat \<Rightarrow> number validator" where
  "inRange lo hi = check (\<lambda>n. num_le (Finite lo) n \<and> num_le n (Finite hi)) (NotInRange lo hi)"

text \<open>\<^verbatim>\<open>ow.number.int16\<close> and \<^verbatim>\<open>ow.number.uint16\<close> are \<^verbatim>\<open>integer.inRange\<close> of the two
  16-bit ranges.\<close>

definition int16 :: "number validator list" where
  "int16 = [integer, inRange (- 32768) 32767]"

definition uint16 :: "number validator list" where
  "uint16 = [integer, inRange 0 65535]"

text \<open>
  \<^verbatim>\<open>ow.object.exactShape(shape)\<close>: every key of the shape is tested first, in the order
  of the shape, against the property of that name (\<^verbatim>\<open>undefined\<close> when absent), stopping
  at the first failure; then any own key of the object that the shape does not declare
  is an error, the first such key being reported.
\<close>

fun exact_declared :: "(string \<times> predicate) list \<Rightarrow> jsval \<Rightarrow> ow_error option traced" where
  "exact_declared [] object = ([], None)"
| "exact_declared ((key, p) # shape) object =
     (case p (get object key) of
        (t, Inl e) \<Rightarrow> (t, Some (InProperty key e))
      | (t, Inr _) \<Rightarrow> (case exact_declared shape object of (t', r) \<Rightarrow> (t @ t', r)))"

definition exactShape :: "(string \<times> predicate) list \<Rightarrow> jsval validator" where
  "exactShape shape object =
     (case exact_declared shape object of
        (t, Some e) \<Rightarrow> (t, Some e)
      | (t, None) \<Rightarrow>
          (case filter (\<lambda>key. key \<notin> set (map fst shape)) (own_keys object) of
             [] \<Rightarrow> (t, None)
           | key # _ \<Rightarrow> (t, Some (UnexpectedProperty key))))"

section \<open>Amounts\<close>

text \<open>
  \<^verbatim>\<open>MAX_COIN_BN\<close> and \<^verbatim>\<open>MAX_COIN_FORMATTED\<close> are constants of \<^verbatim>\<open>./init\<close>; the validators
  take them as parameters.
\<close>

definition owBigNumber :: predicate where
  "owBigNumber =
     ow_object [validate (\<lambda>value. no_throw ([], isBigNumber value))
       ''Expected value to be a BigNumber'']"

text \<open>
  In \<^verbatim>\<open>owCoin\<close> the three methods are called only when \<^verbatim>\<open>isBigNumber\<close> holds. On a
  plain object that carries the marker, \<^verbatim>\<open>value.isInteger\<close> is no function and the call
  raises.
\<close>

definition owCoin :: "BigNumber \<Rightarrow> string \<Rightarrow> predicate" where
  "owCoin MAX_COIN_BN MAX_COIN_FORMATTED =
     ow_object [validate
       (\<lambda>value. ([],
          if isBigNumber value then
            (case value of
               JBigNumber v \<Rightarrow>
                 Inr (isInteger v \<and> isGreaterThanOrEqualTo v (Finite 0) \<and>
                      isLessThanOrEqualTo v MAX_COIN_BN)
             | _ \<Rightarrow> Inl (TypeError ''value.isInteger is not a function''))
          else Inr False))
       (''Expected value to be within maximum coin: '' @ MAX_COIN_FORMATTED)]"

section \<open>Strings and patterns\<close>

text \<open>
  A string is the list of its code units. \<^verbatim>\<open>value.startsWith(searchString)\<close> compares
  the first units of the value with the search string.
\<close>

definition startsWith :: "string \<Rightarrow> string \<Rightarrow> bool" where
  "startsWith value searchString = (take (length searchString) value = searchString)"

text \<open>
  The only regular expression of the validators is \<^verbatim>\<open>/^[0-9A-Fa-f]{64}$/\<close>: a character
  class, given by its ranges, repeated a fixed number of times between the two anchors
  (without the multiline flag \<^verbatim>\<open>$\<close> matches at the very end of the input only).
  \<open>consume\<close> reads that many characters of the class and returns the rest of the input.
\<close>

definition in_class :: "(char \<times> char) list \<Rightarrow> char \<Rightarrow> bool" where
  "in_class ranges c =
     list_ex (\<lambda>(lo, hi). (of_char lo :: nat) \<le> of_char c \<and> (of_char c :: nat) \<le> of_char hi) ranges"

fun consume :: "(char \<times> char) list \<Rightarrow> nat \<Rightarrow> string \<Rightarrow> string option" where
  "consume ranges 0 s = Some s"
| "consume ranges (Suc n) [] = None"
| "consume ranges (Suc n) (c # s) = (if in_class ranges c then consume ranges n s else None)"

definition matches_anchored_class :: "(char \<times> char) list \<Rightarrow> nat \<Rightarrow> string validator" where
  "matches_anchored_class ranges n = check (\<lambda>s. consume ranges n s = Some []) NoMatch"

definition owTxId :: predicate where
  "owTxId =
     ow_string [matches_anchored_class
       [(CHR ''0'', CHR ''9''), (CHR ''A'', CHR ''F''), (CHR ''a'', CHR ''f'')] 64]"

section \<open>Addresses\<close>

text \<open>
  \<^verbatim>\<open>native.address\<close> is the external address engine; its two predicates are parameters
  of the validators that call them.
\<close>

record address_engine =
  isTransferAddressValid :: "string \<Rightarrow> NetworkEnum \<Rightarrow> bool"
  isStakingAddressValid :: "string \<Rightarrow> bool"

definition validateTransferAddress :: "address_engine \<Rightarrow> string \<Rightarrow> bool traced" where
  "validateTransferAddress native value =
     (case (if startsWith value ''cro'' then Some Mainnet
            else if startsWith value ''tcro'' then Some Testnet
            else if startsWith value ''dcro'' then Some Devnet
            else None) of
        None \<Rightarrow> ([], False)
      | Some network \<Rightarrow>
          ([IsTransferAddressValid value network], isTransferAddressValid native value network))"

definition owTransferAddress :: "address_engine \<Rightarrow> predicate" where
  "owTransferAddress native =
     ow_string [validate (\<lambda>value. no_throw (validateTransferAddress native value))
       ''Expected value to be a valid transfer address'']"

definition validateStakingAddress :: "address_engine \<Rightarrow> string \<Rightarrow> bool traced" where
  "validateStakingAddress native value =
     ([IsStakingAddressValid value], isStakingAddressValid native value)"

definition owStakingAddress :: "address_engine \<Rightarrow> predicate" where
  "owStakingAddress native =
     ow_string [validate (\<lambda>value. no_throw (validateStakingAddress native value))
       ''Expected value to be a valid staking address'']"

section \<open>Inputs\<close>

record InputAddressParams =
  requiredSigners :: number
  totalSigners :: number

text \<open>The object a value of the interface is at run time.\<close>

definition InputAddressParams_object :: "InputAddressParams \<Rightarrow> jsval" where
  "InputAddressParams_object p =
     JObject [(''requiredSigners'', JNumber (requiredSigners p)),
              (''totalSigners'', JNumber (totalSigners p))]"

text \<open>
  \<^verbatim>\<open>a >= b\<close> of the custom validator below. It runs after \<^verbatim>\<open>exactShape\<close> has passed, so
  both operands are numbers; the coercions of other operands are never reached.
\<close>

fun js_ge :: "jsval \<Rightarrow> jsval \<Rightarrow> bool" where
  "js_ge (JNumber a) (JNumber b) = num_le b a"
| "js_ge _ _ = False"

definition owInputAddressParams :: predicate where
  "owInputAddressParams =
     ow_object
       [exactShape
          [(''requiredSigners'', ow_number [integer, greaterThan_ow 0]),
           (''totalSigners'', ow_number [integer, greaterThan_ow 0])],
        validate
          (\<lambda>value. no_throw ([], js_ge (get value ''totalSigners'') (get value ''requiredSigners'')))
          ''Total signers should be greater than or equal to required signers'']"

definition owPrevOutputPointer :: predicate where
  "owPrevOutputPointer =
     ow_object [exactShape [(''prevTxId'', owTxId), (''prevIndex'', ow_number uint16)]]"

section \<open>Staked state\<close>

record StakedState =
  nonce :: number
  bonded :: BigNumber
  unbonded :: BigNumber
  unbondedFrom :: number
  address :: string

definition owUnixTimestamp :: predicate where
  "owUnixTimestamp = ow_number [integer]"

definition owAccountNonce :: predicate where
  "owAccountNonce = ow_number int16"

definition owStakedState :: "address_engine \<Rightarrow> predicate" where
  "owStakedState native =
     ow_object [exactShape
       [(''nonce'', owAccountNonce),
        (''bonded'', owBigNumber),
        (''unbonded'', owBigNumber),
        (''unbondedFrom'', owUnixTimestamp),
        (''address'', owStakingAddress native),
        (''punishment'', ow_optional (ow_object [exactShape
           [(''kind'', ow_string []),
            (''jailedUntil'', owUnixTimestamp),
            (''slashAmount'', owBigNumber)]])),
        (''councilNode'', ow_optional (ow_object [exactShape
           [(''name'', ow_string []),
            (''securityContact'', ow_optional (ow_string [])),
            (''consensusPubkey'', ow_object [exactShape
               [(''type'', ow_string []),
                (''value'', ow_string [])]])]]))]]"

record NativeStakedState =
  nonce :: number
  bonded :: string
  unbonded :: string
  unbonded_from :: number
  address :: string

subsection \<open>Decimal strings of bignumber.js\<close>

text \<open>
  \<^verbatim>\<open>x.toString(10)\<close>. With an explicit base the library rounds the value to
  \<^verbatim>\<open>DECIMAL_PLACES\<close> decimal places in the \<^verbatim>\<open>ROUNDING_MODE\<close> (by default 20 places and
  \<^verbatim>\<open>ROUND_HALF_UP\<close>, which rounds a tie away from zero) and writes it in plain
  notation, never with an exponent: the integer digits, then, when the fraction is not
  zero, a point and the fraction digits without trailing zeros. The sign is written
  when the value is negative and the rounded value is not zero.
\<close>

definition DECIMAL_PLACES :: nat where
  "DECIMAL_PLACES = 20"

definition digit_char :: "nat \<Rightarrow> char" where
  "digit_char d = char_of (48 + d)"

fun digits :: "nat \<Rightarrow> string" where
  "digits n = (if n < 10 then [digit_char n] else digits (n div 10) @ [digit_char (n mod 10)])"

definition round_half_up :: "rat \<Rightarrow> nat" where
  "round_half_up x = nat \<lfloor>x + 1 / 2\<rfloor>"

definition strip_trailing_zeros :: "string \<Rightarrow> string" where
  "strip_trailing_zeros s = rev (dropWhile (\<lambda>c. c = CHR ''0'') (rev s))"

definition toFixedPoint :: "nat \<Rightarrow> string" where
  "toFixedPoint q =
     (let ip = q div 10 ^ DECIMAL_PLACES; fp = q mod 10 ^ DECIMAL_PLACES
      in digits ip @
         (if fp = 0 then []
          else CHR ''.'' # strip_trailing_zeros
                 (replicate (DECIMAL_PLACES - length (digits fp)) CHR ''0'' @ digits fp)))"

fun toString10 :: "BigNumber \<Rightarrow> string" where
  "toString10 NaN = ''NaN''"
| "toString10 (Infinite neg) = (if neg then ''-Infinity'' else ''Infinity'')"
| "toString10 (Finite r) =
     (let q = round_half_up (\<bar>r\<bar> * 10 ^ DECIMAL_PLACES); str = toFixedPoint q
      in if r < 0 \<and> q \<noteq> 0 then CHR ''-'' # str else str)"

text \<open>
  \<^verbatim>\<open>new BigNumber(str)\<close> for a string, without a base. A plain decimal literal (an
  optional minus sign, then digits with an optional point and fraction digits, or a
  point and fraction digits) is read exactly, and the three words that \<^verbatim>\<open>toString\<close>
  writes for the values that are not finite are read back. What the library makes of
  every other string (exponent notation, surrounding white space, a leading plus, a base
  prefix, or NaN for a string with no numeric reading) is the parameter \<open>other\<close>. In
  the default configuration (\<^verbatim>\<open>BigNumber.DEBUG\<close> unset) the constructor raises for no
  string.
\<close>

definition is_digit :: "char \<Rightarrow> bool" where
  "is_digit c \<longleftrightarrow> 48 \<le> (of_char c :: nat) \<and> (of_char c :: nat) \<le> 57"

definition nat_of_digits :: "string \<Rightarrow> nat" where
  "nat_of_digits s = foldl (\<lambda>a c. 10 * a + (of_char c - 48)) 0 s"

definition parse_unsigned :: "string \<Rightarrow> rat option" where
  "parse_unsigned s =
     (let ip = takeWhile is_digit s
      in case dropWhile is_digit s of
           [] \<Rightarrow> if ip = [] then None else Some (of_nat (nat_of_digits ip))
         | c # fp \<Rightarrow>
             if c = CHR ''.'' \<and> list_all is_digit fp \<and> (ip \<noteq> [] \<or> fp \<noteq> [])
             then Some (of_nat (nat_of_digits ip) + of_nat (nat_of_digits fp) / 10 ^ length fp)
             else None)"

definition parse_decimal :: "string \<Rightarrow> rat option" where
  "parse_decimal s =
     (if s \<noteq> [] \<and> hd s = CHR ''-'' then map_option uminus (parse_unsigned (tl s))
      else parse_unsigned s)"

definition new_BigNumber :: "(string \<Rightarrow> BigNumber) \<Rightarrow> string \<Rightarrow> BigNumber" where
  "new_BigNumber other str =
     (case parse_decimal str of
        Some r \<Rightarrow> Finite r
      | None \<Rightarrow>
          if str = ''NaN'' then NaN
          else if str = ''Infinity'' then Infinite False
          else if str = ''-Infinity'' then Infinite True
          else other str)"

subsection \<open>Conversion to the native form and back\<close>

text \<open>
  Both functions build a new object of exactly five properties from five properties of
  their argument. The argument may carry further properties (a record scheme): the
  validator above admits \<^verbatim>\<open>punishment\<close> and \<^verbatim>\<open>councilNode\<close> on a staked state.
\<close>

definition parseStakedStateForNative :: "'a StakedState_scheme \<Rightarrow> NativeStakedState" where
  "parseStakedStateForNative stakedState =
     \<lparr> NativeStakedState.nonce = StakedState.nonce stakedState,
       NativeStakedState.bonded = toString10 (StakedState.bonded stakedState),
       NativeStakedState.unbonded = toString10 (StakedState.unbonded stakedState),
       unbonded_from = unbondedFrom stakedState,
       NativeStakedState.address = StakedState.address stakedState \<rparr>"

definition parseStakedStateForNodelib ::
  "(string \<Rightarrow> BigNumber) \<Rightarrow> 'a NativeStakedState_scheme \<Rightarrow> StakedState" where
  "parseStakedStateForNodelib other stakedState =
     \<lparr> StakedState.nonce = NativeStakedState.nonce stakedState,
       StakedState.bonded = new_BigNumber other (NativeStakedState.bonded stakedState),
       StakedState.unbonded = new_BigNumber other (NativeStakedState.unbonded stakedState),
       unbondedFrom = unbonded_from stakedState,
       StakedState.address = NativeStakedState.address stakedState \<rparr>"

text \<open>The two optional sub-records that \<^verbatim>\<open>owStakedState\<close> admits, as further
  properties of a staked state and of its native form.\<close>

record Punishment =
  kind :: string
  jailedUntil :: number
  slashAmount :: BigNumber

record ConsensusPubkey =
  pubkey_type :: string
  pubkey_value :: string

record CouncilNode =
  name :: string
  securityContact :: "string option"
  consensusPubkey :: ConsensusPubkey

record StakedStateWithSubrecords = StakedState +
  punishment :: "Punishment option"
  councilNode :: "CouncilNode option"

record NativeStakedStateWithSubrecords = NativeStakedState +
  native_punishment :: "Punishment option"
  native_councilNode :: "CouncilNode option"

section \<open>Options of the transaction builders\<close>

text \<open>
  \<^verbatim>\<open>owOptionalNetworkConfig\<close> (of \<^verbatim>\<open>network/types\<close>) and \<^verbatim>\<open>owFeeConfig\<close> (of
  \<^verbatim>\<open>fee/types\<close>) are predicates defined elsewhere; the option sets take them as
  parameters.
\<close>

definition owDepositTransactionOptions :: "predicate \<Rightarrow> predicate" where
  "owDepositTransactionOptions owOptionalNetworkConfig =
     ow_object [exactShape
       [(''stakingAddress'', ow_string []),
        (''network'', owOptionalNetworkConfig)]]"

definition owUnbondTransactionBuilderOptions ::
  "BigNumber \<Rightarrow> string \<Rightarrow> predicate \<Rightarrow> predicate" where
  "owUnbondTransactionBuilderOptions MAX_COIN_BN MAX_COIN_FORMATTED owOptionalNetworkConfig =
     ow_object [exactShape
       [(''stakingAddress'', ow_string []),
        (''nonce'', ow_number int16),
        (''amount'', owCoin MAX_COIN_BN MAX_COIN_FORMATTED),
        (''network'', owOptionalNetworkConfig)]]"

definition owWithdrawUnbondedTransactionBuilderOptions ::
  "address_engine \<Rightarrow> predicate \<Rightarrow> predicate \<Rightarrow> predicate" where
  "owWithdrawUnbondedTransactionBuilderOptions native owFeeConfig owOptionalNetworkConfig =
     ow_object [exactShape
       [(''stakedState'', owStakedState native),
        (''feeConfig'', owFeeConfig),
        (''network'', owOptionalNetworkConfig)]]"

section \<open>An example environment\<close>

text \<open>
  A concrete address engine, ceiling and pair of external predicates, on which the
  validators can be run: the engine knows one transfer address of the main network and
  one staking address; the ceiling is \<open>10 ^ 19\<close> base units.
\<close>

definition example_engine :: address_engine where
  "example_engine =
     \<lparr> isTransferAddressValid = (\<lambda>value network. value = ''cro1transfer'' \<and> network = Mainnet),
       isStakingAddressValid = (\<lambda>value. value = ''0xstaking'') \<rparr>"

definition example_owOptionalNetworkConfig :: predicate where
  "example_owOptionalNetworkConfig = ow_optional (ow_object [])"

definition example_owFeeConfig :: predicate where
  "example_owFeeConfig = ow_object []"

definition example_MAX_COIN_BN :: BigNumber where
  "example_MAX_COIN_BN = Finite (10 ^ 19)"

text \<open>The object a value of the interface \<^verbatim>\<open>StakedState\<close> is at run time.\<close>

definition StakedState_object :: "StakedState \<Rightarrow> jsval" where
  "StakedState_object s =
     JObject [(''nonce'', JNumber (StakedState.nonce s)),
              (''bonded'', JBigNumber (StakedState.bonded s)),
              (''unbonded'', JBigNumber (StakedState.unbonded s)),
              (''unbondedFrom'', JNumber (unbondedFrom s)),
              (''address'', JString (StakedState.address s))]"

definition example_other_literals :: "string \<Rightarrow> BigNumber" where
  "example_other_literals str = NaN"

text \<open>A staked state of a jailed council node, as \<^verbatim>\<open>owStakedState\<close> admits it, and a
  native staked state that carries the same two sub-records.\<close>

definition example_jailed_state :: StakedStateWithSubrecords where
  "example_jailed_state =
     \<lparr> StakedState.nonce = Finite 3,
       StakedState.bonded = Finite 5000,
       StakedState.unbonded = Finite 1000,
       unbondedFrom = Finite 1600000000,
       StakedState.address = ''0xstaking'',
       punishment = Some \<lparr> kind = ''NonLive'', jailedUntil = Finite 1600086400,
                            slashAmount = Finite 100 \<rparr>,
       councilNode = Some \<lparr> name = ''node'', securityContact = None,
                             consensusPubkey = \<lparr> pubkey_type = ''tendermint/PubKeyEd25519'',
                                                 pubkey_value = ''key'' \<rparr> \<rparr> \<rparr>"

definition example_native_jailed_state :: NativeStakedStateWithSubrecords where
  "example_native_jailed_state =
     \<lparr> NativeStakedState.nonce = Finite 3,
       NativeStakedState.bonded = ''5000'',
       NativeStakedState.unbonded = ''1000'',
       unbonded_from = Finite 1600000000,
       NativeStakedState.address = ''0xstaking'',
       native_punishment = Some \<lparr> kind = ''NonLive'', jailedUntil = Finite 1600086400,
                                   slashAmount = Finite 100 \<rparr>,
       native_councilNode = Some \<lparr> name = ''node'', securityContact = None,
                                    consensusPubkey = \<lparr> pubkey_type = ''tendermint/PubKeyEd25519'',
                                                        pubkey_value = ''key'' \<rparr> \<rparr> \<rparr>"

section \<open>Properties\<close>

lemma isInteger_iff: "isInteger x \<longleftrightarrow> (\<exists>n::int. x = Finite (of_int n))"
proof (cases x)
  case (Finite r)
  have "(of_int \<lfloor>r\<rfloor> = r) \<longleftrightarrow> (\<exists>n::int. r = of_int n)"
    by (metis of_int_floor_cancel Ints_cases Ints_of_int)
  with Finite show ?thesis by simp
qed simp_all

subsection \<open>The coin amount validator\<close>

text \<open>
  C1. With \<^verbatim>\<open>MAX_COIN_BN\<close> a finite ceiling \<open>M\<close>, \<^verbatim>\<open>owCoin\<close> accepts a value exactly when
  it is a BigNumber whose value is an integer \<open>n\<close> with \<open>0 \<le> n\<close> and \<open>n \<le> M\<close>. Every
  other value is rejected: a value that is no BigNumber, NaN, an infinity, a value with
  a fractional part, a negative value, a value above the ceiling. The validator calls
  nothing outside.
\<close>

theorem owCoin_accepts_iff:
  assumes "MAX_COIN_BN = Finite M"
  shows "owCoin MAX_COIN_BN MAX_COIN_FORMATTED v = ([], Inr ()) \<longleftrightarrow>
           (\<exists>n::int. v = JBigNumber (Finite (of_int n)) \<and> 0 \<le> n \<and> of_int n \<le> M)"
proof (cases v)
  case (JBigNumber b)
  have "(isInteger b \<and> num_le (Finite 0) b \<and> num_le b (Finite M)) \<longleftrightarrow>
        (\<exists>n::int. b = Finite (of_int n) \<and> 0 \<le> n \<and> of_int n \<le> M)"
    by (auto simp: isInteger_iff)
  with JBigNumber assms show ?thesis
    by (simp add: owCoin_def ow_object_def validate_def no_throw_def isGreaterThanOrEqualTo_def
        isLessThanOrEqualTo_def)
qed (simp_all add: owCoin_def ow_object_def validate_def no_throw_def)

theorem owCoin_accepts_iff_witness:
  "owCoin (Finite (10 ^ 19)) ''100,000,000,000.00000000'' (JBigNumber (Finite (10 ^ 19)))
     = ([], Inr ())
   \<and> owCoin (Finite (10 ^ 19)) ''100,000,000,000.00000000'' (JBigNumber (Finite (10 ^ 19 + 1)))
     \<noteq> ([], Inr ())
   \<and> owCoin (Finite (10 ^ 19)) ''100,000,000,000.00000000'' (JBigNumber (Finite (- 1)))
     \<noteq> ([], Inr ())
   \<and> owCoin (Finite (10 ^ 19)) ''100,000,000,000.00000000'' (JBigNumber (Finite (1 / 2)))
     \<noteq> ([], Inr ())"
proof -
  have a: "\<exists>n::int. JBigNumber (Finite (10 ^ 19)) = JBigNumber (Finite (of_int n)) \<and> 0 \<le> n
             \<and> (of_int n :: rat) \<le> 10 ^ 19"
    by (rule exI [of _ "10 ^ 19"]) simp
  have b: "\<not> (\<exists>n::int. JBigNumber (Finite (10 ^ 19 + 1)) = JBigNumber (Finite (of_int n))
             \<and> 0 \<le> n \<and> (of_int n :: rat) \<le> 10 ^ 19)"
    by auto
  have c: "\<not> (\<exists>n::int. JBigNumber (Finite (- 1)) = JBigNumber (Finite (of_int n)) \<and> 0 \<le> n
             \<and> (of_int n :: rat) \<le> 10 ^ 19)"
    by auto
  have d: "\<not> (\<exists>n::int. JBigNumber (Finite (1 / 2)) = JBigNumber (Finite (of_int n)) \<and> 0 \<le> n
             \<and> (of_int n :: rat) \<le> 10 ^ 19)"
  proof
    assume "\<exists>n::int. JBigNumber (Finite (1 / 2)) = JBigNumber (Finite (of_int n)) \<and> 0 \<le> n
             \<and> (of_int n :: rat) \<le> 10 ^ 19"
    then have "isInteger (Finite (1 / 2))" by (auto simp: isInteger_iff)
    moreover have "\<not> isInteger (Finite (1 / 2))" by code_simp
    ultimately show False by blast
  qed
  show ?thesis
    using a b c d
      owCoin_accepts_iff [of "Finite (10 ^ 19)" "10 ^ 19" "''100,000,000,000.00000000''"]
    by blast
qed

subsection \<open>Network dispatch of transfer addresses\<close>

lemma startsWith_iff: "startsWith s p \<longleftrightarrow> (\<exists>t. s = p @ t)"
  unfolding startsWith_def
  by (metis append_eq_conv_conj append_take_drop_id)

text \<open>
  C2. For every string and every address engine, \<^verbatim>\<open>validateTransferAddress\<close> asks the
  engine exactly once, with the main network, exactly when the string starts with
  \<^verbatim>\<open>cro\<close>; with the test network exactly when it starts with \<^verbatim>\<open>tcro\<close>; with the
  development network exactly when it starts with \<^verbatim>\<open>dcro\<close>; the verdict is then the
  engine's. The three prefixes exclude one another, so the order of the tests decides
  nothing. A string with none of the prefixes is rejected with no call of the engine,
  and only such a string is.
\<close>

theorem validateTransferAddress_dispatch:
  "(validateTransferAddress native s
      = ([IsTransferAddressValid s Mainnet], isTransferAddressValid native s Mainnet)
      \<longleftrightarrow> (\<exists>t. s = ''cro'' @ t))
   \<and> (validateTransferAddress native s
      = ([IsTransferAddressValid s Testnet], isTransferAddressValid native s Testnet)
      \<longleftrightarrow> (\<exists>t. s = ''tcro'' @ t))
   \<and> (validateTransferAddress native s
      = ([IsTransferAddressValid s Devnet], isTransferAddressValid native s Devnet)
      \<longleftrightarrow> (\<exists>t. s = ''dcro'' @ t))
   \<and> (validateTransferAddress native s = ([], False)
      \<longleftrightarrow> \<not> ((\<exists>t. s = ''cro'' @ t) \<or> (\<exists>t. s = ''tcro'' @ t) \<or> (\<exists>t. s = ''dcro'' @ t)))"
proof -
  have excl: "\<not> (startsWith s ''cro'' \<and> startsWith s ''tcro'')"
    "\<not> (startsWith s ''cro'' \<and> startsWith s ''dcro'')"
    "\<not> (startsWith s ''tcro'' \<and> startsWith s ''dcro'')"
    by (auto simp: startsWith_iff)
  show ?thesis
    using excl unfolding startsWith_iff [symmetric]
    by (auto simp: validateTransferAddress_def)
qed

theorem validateTransferAddress_dispatch_witness:
  "validateTransferAddress example_engine ''cro1transfer''
     = ([IsTransferAddressValid ''cro1transfer'' Mainnet], True)
   \<and> validateTransferAddress example_engine ''tcro1transfer''
     = ([IsTransferAddressValid ''tcro1transfer'' Testnet], False)
   \<and> validateTransferAddress example_engine ''dcro1transfer''
     = ([IsTransferAddressValid ''dcro1transfer'' Devnet], False)
   \<and> validateTransferAddress example_engine ''xcro1transfer'' = ([], False)"
proof -
  have a: "\<exists>t. ''cro1transfer'' = ''cro'' @ t" by simp
  have b: "\<exists>t. ''tcro1transfer'' = ''tcro'' @ t" by simp
  have c: "\<exists>t. ''dcro1transfer'' = ''dcro'' @ t" by simp
  have d: "\<not> ((\<exists>t. ''xcro1transfer'' = ''cro'' @ t) \<or> (\<exists>t. ''xcro1transfer'' = ''tcro'' @ t)
             \<or> (\<exists>t. ''xcro1transfer'' = ''dcro'' @ t))" by simp
  show ?thesis
    using a b c d
      validateTransferAddress_dispatch [of example_engine "''cro1transfer''"]
      validateTransferAddress_dispatch [of example_engine "''tcro1transfer''"]
      validateTransferAddress_dispatch [of example_engine "''dcro1transfer''"]
      validateTransferAddress_dispatch [of example_engine "''xcro1transfer''"]
    by (simp add: example_engine_def)
qed

subsection \<open>Transaction identifiers\<close>

lemma consume_iff:
  "consume ranges n s = Some [] \<longleftrightarrow> length s = n \<and> list_all (in_class ranges) s"
proof (induction n arbitrary: s)
  case 0
  show ?case by auto
next
  case (Suc n)
  show ?case by (cases s) (simp_all add: Suc.IH)
qed

lemma digit_range: "(48 \<le> n \<and> n \<le> 57) \<longleftrightarrow> (n::nat) \<in> {48,49,50,51,52,53,54,55,56,57}"
  by (simp only: insert_iff empty_iff) arith

lemma upper_range: "(65 \<le> n \<and> n \<le> 70) \<longleftrightarrow> (n::nat) \<in> {65,66,67,68,69,70}"
  by (simp only: insert_iff empty_iff) arith

lemma lower_range: "(97 \<le> n \<and> n \<le> 102) \<longleftrightarrow> (n::nat) \<in> {97,98,99,100,101,102}"
  by (simp only: insert_iff empty_iff) arith

lemma hex_class_iff:
  "in_class [(CHR ''0'', CHR ''9''), (CHR ''A'', CHR ''F''), (CHR ''a'', CHR ''f'')] c
     \<longleftrightarrow> c \<in> set ''0123456789ABCDEFabcdef''"
proof -
  define n :: nat where "n = of_char c"
  have "c \<in> set ''0123456789ABCDEFabcdef''
      \<longleftrightarrow> n \<in> of_char ` set ''0123456789ABCDEFabcdef''"
    unfolding n_def by (rule inj_image_mem_iff [OF inj_of_char, symmetric])
  also have "(of_char ` set ''0123456789ABCDEFabcdef'' :: nat set)
      = {48,49,50,51,52,53,54,55,56,57,65,66,67,68,69,70,97,98,99,100,101,102}"
    by simp
  also have "n \<in> {48,49,50,51,52,53,54,55,56,57,65,66,67,68,69,70,97,98,99,100,101,102}
      \<longleftrightarrow> n \<in> {48,49,50,51,52,53,54,55,56,57} \<or> n \<in> {65,66,67,68,69,70}
          \<or> n \<in> {97,98,99,100,101,102}"
    by (simp only: insert_iff empty_iff disj_assoc simp_thms)
  also have "\<dots> \<longleftrightarrow> (48 \<le> n \<and> n \<le> 57) \<or> (65 \<le> n \<and> n \<le> 70) \<or> (97 \<le> n \<and> n \<le> 102)"
    by (simp only: digit_range upper_range lower_range)
  finally have "c \<in> set ''0123456789ABCDEFabcdef''
      \<longleftrightarrow> (48 \<le> n \<and> n \<le> 57) \<or> (65 \<le> n \<and> n \<le> 70) \<or> (97 \<le> n \<and> n \<le> 102)" .
  moreover have "in_class [(CHR ''0'', CHR ''9''), (CHR ''A'', CHR ''F''), (CHR ''a'', CHR ''f'')] c
      \<longleftrightarrow> (48 \<le> n \<and> n \<le> 57) \<or> (65 \<le> n \<and> n \<le> 70) \<or> (97 \<le> n \<and> n \<le> 102)"
    unfolding n_def by (simp add: in_class_def)
  ultimately show ?thesis by (simp only:)
qed


text \<open>
  C8. \<^verbatim>\<open>owTxId\<close> accepts a string exactly when it has 64 characters, each of them a
  digit or one of the letters a to f in either case. A string of 63 characters, and a
  string with a character such as \<^verbatim>\<open>g\<close>, is rejected.
\<close>

theorem owTxId_accepts_iff:
  "owTxId (JString s) = ([], Inr ())
     \<longleftrightarrow> length s = 64 \<and> set s \<subseteq> set ''0123456789ABCDEFabcdef''"
proof -
  have "list_all (in_class [(CHR ''0'', CHR ''9''), (CHR ''A'', CHR ''F''), (CHR ''a'', CHR ''f'')]) s
      \<longleftrightarrow> set s \<subseteq> set ''0123456789ABCDEFabcdef''"
  proof -
    have eq: "in_class [(CHR ''0'', CHR ''9''), (CHR ''A'', CHR ''F''), (CHR ''a'', CHR ''f'')]
        = (\<lambda>c. c \<in> set ''0123456789ABCDEFabcdef'')"
      by (rule ext) (rule hex_class_iff)
    show ?thesis
      by (simp only: eq list_all_iff subset_eq)
  qed
  moreover have "owTxId (JString s) = ([], Inr ()) \<longleftrightarrow>
      consume [(CHR ''0'', CHR ''9''), (CHR ''A'', CHR ''F''), (CHR ''a'', CHR ''f'')] 64 s = Some []"
    by (simp add: owTxId_def ow_string_def matches_anchored_class_def check_def)
  ultimately show ?thesis
    by (simp only: consume_iff)
qed

theorem owTxId_accepts_iff_witness:
  "owTxId (JString (replicate 64 CHR ''a'')) = ([], Inr ())
   \<and> owTxId (JString (replicate 64 CHR ''F'')) = ([], Inr ())
   \<and> owTxId (JString (replicate 64 CHR ''g'')) \<noteq> ([], Inr ())
   \<and> owTxId (JString (replicate 63 CHR ''a'')) \<noteq> ([], Inr ())"
proof -
  have a: "length (replicate 64 CHR ''a'') = 64
      \<and> set (replicate 64 CHR ''a'') \<subseteq> set ''0123456789ABCDEFabcdef''" by simp
  have b: "length (replicate 64 CHR ''F'') = 64
      \<and> set (replicate 64 CHR ''F'') \<subseteq> set ''0123456789ABCDEFabcdef''" by simp
  have c: "\<not> (length (replicate 64 CHR ''g'') = 64
      \<and> set (replicate 64 CHR ''g'') \<subseteq> set ''0123456789ABCDEFabcdef'')" by simp
  have d: "\<not> (length (replicate 63 CHR ''a'') = 64
      \<and> set (replicate 63 CHR ''a'') \<subseteq> set ''0123456789ABCDEFabcdef'')" by simp
  show ?thesis
    using a b c d
      owTxId_accepts_iff [of "replicate 64 CHR ''a''"]
      owTxId_accepts_iff [of "replicate 64 CHR ''F''"]
      owTxId_accepts_iff [of "replicate 64 CHR ''g''"]
      owTxId_accepts_iff [of "replicate 63 CHR ''a''"]
    by blast
qed

subsection \<open>Multisignature parameters\<close>

lemma positive_integer_iff:
  "isInteger x \<and> num_lt (Finite 0) x \<longleftrightarrow> (\<exists>n::int. x = Finite (of_int n) \<and> 0 < n)"
  by (auto simp: isInteger_iff)

lemma signer_count_accepts:
  "ow_number [integer, greaterThan_ow 0] (JNumber x) = ([], Inr ())
     \<longleftrightarrow> (\<exists>n::int. x = Finite (of_int n) \<and> 0 < n)"
  unfolding positive_integer_iff [symmetric]
  by (simp add: ow_number_def integer_def greaterThan_ow_def check_def)

lemma signer_count_untraced:
  "fst (ow_number [integer, greaterThan_ow 0] v) = []"
  by (cases v) (simp_all add: ow_number_def integer_def greaterThan_ow_def check_def)

text \<open>
  C7. For every value of the interface \<^verbatim>\<open>InputAddressParams\<close>, \<^verbatim>\<open>owInputAddressParams\<close>
  accepts its object exactly when \<^verbatim>\<open>requiredSigners\<close> and \<^verbatim>\<open>totalSigners\<close> are integers
  greater than zero and \<^verbatim>\<open>totalSigners\<close> is at least \<^verbatim>\<open>requiredSigners\<close>. Two of three
  signers are accepted, three of two are rejected.
\<close>

theorem owInputAddressParams_accepts_iff:
  "owInputAddressParams (InputAddressParams_object p) = ([], Inr ())
     \<longleftrightarrow> (\<exists>r t :: int. requiredSigners p = Finite (of_int r) \<and> totalSigners p = Finite (of_int t)
            \<and> 0 < r \<and> 0 < t \<and> r \<le> t)"
proof -
  let ?R = "ow_number [integer, greaterThan_ow 0] (JNumber (requiredSigners p))"
  let ?T = "ow_number [integer, greaterThan_ow 0] (JNumber (totalSigners p))"
  have run: "owInputAddressParams (InputAddressParams_object p) = ([], Inr ())
      \<longleftrightarrow> ?R = ([], Inr ()) \<and> ?T = ([], Inr ())
          \<and> num_le (requiredSigners p) (totalSigners p)"
    using signer_count_untraced [of "JNumber (requiredSigners p)"]
      signer_count_untraced [of "JNumber (totalSigners p)"]
    by (cases ?R; cases ?T)
      (auto simp: owInputAddressParams_def InputAddressParams_object_def ow_object_def
        exactShape_def validate_def no_throw_def split: sum.splits)
  show ?thesis
    unfolding run signer_count_accepts by auto
qed

theorem owInputAddressParams_accepts_iff_witness:
  "owInputAddressParams
     (InputAddressParams_object \<lparr> requiredSigners = Finite 2, totalSigners = Finite 3 \<rparr>)
     = ([], Inr ())
   \<and> owInputAddressParams
     (InputAddressParams_object \<lparr> requiredSigners = Finite 3, totalSigners = Finite 2 \<rparr>)
     \<noteq> ([], Inr ())"
proof -
  have a: "\<exists>r t :: int. Finite 2 = Finite (of_int r) \<and> Finite 3 = Finite (of_int t)
             \<and> 0 < r \<and> 0 < t \<and> r \<le> t"
    by (rule exI [of _ 2], rule exI [of _ 3]) simp
  have b: "\<not> (\<exists>r t :: int. Finite 3 = Finite (of_int r) \<and> Finite 2 = Finite (of_int t)
             \<and> 0 < r \<and> 0 < t \<and> r \<le> t)"
    by auto
  show ?thesis
    using a b
      owInputAddressParams_accepts_iff [of "\<lparr> requiredSigners = Finite 2, totalSigners = Finite 3 \<rparr>"]
      owInputAddressParams_accepts_iff [of "\<lparr> requiredSigners = Finite 3, totalSigners = Finite 2 \<rparr>"]
    by simp
qed

subsection \<open>Exact shapes\<close>

lemma exactShape_unexpected:
  assumes "k \<in> set (own_keys object)" and "k \<notin> fst ` set shape"
  shows "\<exists>t e. exactShape shape object = (t, Some e)"
proof (cases "exact_declared shape object")
  case (Pair t r)
  show ?thesis
  proof (cases r)
    case None
    have "k \<in> set (filter (\<lambda>key. key \<notin> set (map fst shape)) (own_keys object))"
      using assms by simp
    then have "filter (\<lambda>key. key \<notin> set (map fst shape)) (own_keys object) \<noteq> []"
      by (metis empty_iff list.set(1))
    then obtain k' ks where "filter (\<lambda>key. key \<notin> set (map fst shape)) (own_keys object) = k' # ks"
      by (meson neq_Nil_conv)
    with Pair None show ?thesis by (simp add: exactShape_def)
  next
    case (Some e)
    with Pair show ?thesis by (simp add: exactShape_def)
  qed
qed

lemma exact_object_unexpected:
  assumes "k \<in> fst ` set kvs" and "k \<notin> fst ` set shape"
  shows "\<exists>t e. ow_object [exactShape shape] (JObject kvs) = (t, Inl e)"
proof -
  from assms have "k \<in> set (own_keys (JObject kvs))" by simp
  from exactShape_unexpected [OF this assms(2)]
  obtain t e where "exactShape shape (JObject kvs) = (t, Some e)" by blast
  then show ?thesis by (simp add: ow_object_def)
qed

text \<open>
  C6. An object that carries an \<^verbatim>\<open>amount\<close> property is rejected by the validator of the
  Deposit options, whatever the value of the property and whatever else the object
  holds. More generally, each of the three option-set validators rejects every object
  that has an own property outside the declared keys of its shape.
\<close>

theorem option_sets_reject_undeclared_fields:
  "((''amount'', a) \<in> set kvs \<longrightarrow>
      (\<exists>t e. owDepositTransactionOptions owOptionalNetworkConfig (JObject kvs) = (t, Inl e)))
   \<and> (k \<in> fst ` set kvs \<and> k \<notin> {''stakingAddress'', ''network''} \<longrightarrow>
      (\<exists>t e. owDepositTransactionOptions owOptionalNetworkConfig (JObject kvs) = (t, Inl e)))
   \<and> (k \<in> fst ` set kvs \<and> k \<notin> {''stakingAddress'', ''nonce'', ''amount'', ''network''} \<longrightarrow>
      (\<exists>t e. owUnbondTransactionBuilderOptions MAX_COIN_BN MAX_COIN_FORMATTED
                owOptionalNetworkConfig (JObject kvs) = (t, Inl e)))
   \<and> (k \<in> fst ` set kvs \<and> k \<notin> {''stakedState'', ''feeConfig'', ''network''} \<longrightarrow>
      (\<exists>t e. owWithdrawUnbondedTransactionBuilderOptions native owFeeConfig
                owOptionalNetworkConfig (JObject kvs) = (t, Inl e)))"
proof (intro conjI impI)
  assume "(''amount'', a) \<in> set kvs"
  then have "''amount'' \<in> fst ` set kvs" by force
  then show "\<exists>t e. owDepositTransactionOptions owOptionalNetworkConfig (JObject kvs) = (t, Inl e)"
    unfolding owDepositTransactionOptions_def
    by (rule exact_object_unexpected) simp
next
  assume "k \<in> fst ` set kvs \<and> k \<notin> {''stakingAddress'', ''network''}"
  then show "\<exists>t e. owDepositTransactionOptions owOptionalNetworkConfig (JObject kvs) = (t, Inl e)"
    unfolding owDepositTransactionOptions_def
    by (intro exact_object_unexpected [of k]) simp_all
next
  assume "k \<in> fst ` set kvs \<and> k \<notin> {''stakingAddress'', ''nonce'', ''amount'', ''network''}"
  then show "\<exists>t e. owUnbondTransactionBuilderOptions MAX_COIN_BN MAX_COIN_FORMATTED
                owOptionalNetworkConfig (JObject kvs) = (t, Inl e)"
    unfolding owUnbondTransactionBuilderOptions_def
    by (intro exact_object_unexpected [of k]) simp_all
next
  assume "k \<in> fst ` set kvs \<and> k \<notin> {''stakedState'', ''feeConfig'', ''network''}"
  then show "\<exists>t e. owWithdrawUnbondedTransactionBuilderOptions native owFeeConfig
                owOptionalNetworkConfig (JObject kvs) = (t, Inl e)"
    unfolding owWithdrawUnbondedTransactionBuilderOptions_def
    by (intro exact_object_unexpected [of k]) simp_all
qed

lemma deposit_example_accepted:
  "owDepositTransactionOptions example_owOptionalNetworkConfig
     (JObject [(''stakingAddress'', JString ''0xstaking'')]) = ([], Inr ())"
  by (simp add: owDepositTransactionOptions_def example_owOptionalNetworkConfig_def
      ow_object_def ow_string_def ow_optional_def exactShape_def)

theorem option_sets_reject_undeclared_fields_witness:
  "owDepositTransactionOptions example_owOptionalNetworkConfig
     (JObject [(''stakingAddress'', JString ''0xstaking'')]) = ([], Inr ())
   \<and> (\<exists>t e. owDepositTransactionOptions example_owOptionalNetworkConfig
      (JObject [(''stakingAddress'', JString ''0xstaking''),
                (''amount'', JBigNumber (Finite 1000))]) = (t, Inl e))
   \<and> (\<exists>t e. owUnbondTransactionBuilderOptions example_MAX_COIN_BN ''100,000,000,000''
      example_owOptionalNetworkConfig
      (JObject [(''stakingAddress'', JString ''0xstaking''), (''nonce'', JNumber (Finite 5)),
                (''amount'', JBigNumber (Finite 1000)), (''memo'', JString ''x'')]) = (t, Inl e))
   \<and> (\<exists>t e. owWithdrawUnbondedTransactionBuilderOptions example_engine example_owFeeConfig
      example_owOptionalNetworkConfig
      (JObject [(''stakingAddress'', JString ''0xstaking'')]) = (t, Inl e))"
  using
    option_sets_reject_undeclared_fields [of "JBigNumber (Finite 1000)"
      "[(''stakingAddress'', JString ''0xstaking''), (''amount'', JBigNumber (Finite 1000))]"
      example_owOptionalNetworkConfig "''amount''"]
    option_sets_reject_undeclared_fields [of a
      "[(''stakingAddress'', JString ''0xstaking''), (''nonce'', JNumber (Finite 5)),
        (''amount'', JBigNumber (Finite 1000)), (''memo'', JString ''x'')]"
      example_owOptionalNetworkConfig "''memo''" example_MAX_COIN_BN "''100,000,000,000''"]
    option_sets_reject_undeclared_fields [of a
      "[(''stakingAddress'', JString ''0xstaking'')]"
      example_owOptionalNetworkConfig "''stakingAddress''" _ _ example_engine example_owFeeConfig]
    deposit_example_accepted
  by simp

subsection \<open>Staked state and the staking address in the option sets\<close>

lemma owBigNumber_BigNumber: "owBigNumber (JBigNumber b) = ([], Inr ())"
  by (simp add: owBigNumber_def ow_object_def validate_def no_throw_def)

lemma ow_string_any: "ow_string [] (JString s) = ([], Inr ())"
  by (simp add: ow_string_def)

lemma ow_string_not_string:
  "(\<forall>s. v \<noteq> JString s) \<Longrightarrow> ow_string [] v = ([], Inl (NotOfType ''string''))"
  by (cases v) (simp_all add: ow_string_def)

lemma owStakingAddress_delegates:
  "owStakingAddress native (JString s) =
     ([IsStakingAddressValid s],
      if isStakingAddressValid native s then Inr ()
      else Inl (Message ''Expected value to be a valid staking address''))"
  by (simp add: owStakingAddress_def ow_string_def validate_def no_throw_def validateStakingAddress_def)

lemma int16_iff:
  "isInteger x \<and> num_le (Finite (- 32768)) x \<and> num_le x (Finite 32767)
     \<longleftrightarrow> (\<exists>n::int. x = Finite (of_int n) \<and> - 32768 \<le> n \<and> n \<le> 32767)"
  by (auto simp: isInteger_iff)

lemma ow_int16_accepts:
  "ow_number int16 (JNumber x) = ([], Inr ())
     \<longleftrightarrow> (\<exists>n::int. x = Finite (of_int n) \<and> - 32768 \<le> n \<and> n \<le> 32767)"
  unfolding int16_iff [symmetric]
  by (simp add: ow_number_def int16_def integer_def inRange_def check_def)

lemma ow_int16_untraced: "fst (ow_number int16 v) = []"
  by (cases v) (simp_all add: ow_number_def int16_def integer_def inRange_def check_def)

lemma owUnixTimestamp_accepts:
  "owUnixTimestamp (JNumber x) = ([], Inr ()) \<longleftrightarrow> isInteger x"
  by (simp add: owUnixTimestamp_def ow_number_def integer_def check_def)

lemma owUnixTimestamp_untraced: "fst (owUnixTimestamp v) = []"
  by (cases v) (simp_all add: owUnixTimestamp_def ow_number_def integer_def check_def)

lemma owStakedState_object:
  "owStakedState native (StakedState_object s) =
     (case owAccountNonce (JNumber (StakedState.nonce s)) of
        (t, Inl e) \<Rightarrow> (t, Inl (InProperty ''nonce'' e))
      | (t, Inr _) \<Rightarrow>
          (case owUnixTimestamp (JNumber (unbondedFrom s)) of
             (t', Inl e) \<Rightarrow> (t @ t', Inl (InProperty ''unbondedFrom'' e))
           | (t', Inr _) \<Rightarrow>
               (t @ t' @ [IsStakingAddressValid (StakedState.address s)],
                if isStakingAddressValid native (StakedState.address s) then Inr ()
                else Inl (InProperty ''address''
                       (Message ''Expected value to be a valid staking address'')))))"
  by (simp add: owStakedState_def StakedState_object_def ow_object_def exactShape_def
      owBigNumber_BigNumber owStakingAddress_delegates ow_optional_def
      split: prod.splits sum.splits)


lemma exact_declared_cong:
  assumes "\<And>k p. (k, p) \<in> set shape \<Longrightarrow> p (get o1 k) = p (get o2 k)"
  shows "exact_declared shape o1 = exact_declared shape o2"
  using assms
proof (induction shape)
  case Nil
  show ?case by simp
next
  case (Cons kp shape)
  obtain k p where kp: "kp = (k, p)" by (cases kp)
  have "p (get o1 k) = p (get o2 k)" using Cons.prems kp by simp
  moreover have "exact_declared shape o1 = exact_declared shape o2"
    using Cons by simp
  ultimately show ?case using kp by simp
qed

lemma exactShape_cong:
  assumes "\<And>k p. (k, p) \<in> set shape \<Longrightarrow> p (get o1 k) = p (get o2 k)"
    and "own_keys o1 = own_keys o2"
  shows "exactShape shape o1 = exactShape shape o2"
proof -
  have "exact_declared shape o1 = exact_declared shape o2"
    using assms(1) by (rule exact_declared_cong)
  then show ?thesis
    unfolding exactShape_def by (simp only: assms(2))
qed

lemma owStakedState_accepts_iff:
  "owStakedState native (StakedState_object s)
      = ([IsStakingAddressValid (StakedState.address s)], Inr ())
     \<longleftrightarrow> (\<exists>n::int. StakedState.nonce s = Finite (of_int n) \<and> - 32768 \<le> n \<and> n \<le> 32767)
         \<and> isInteger (unbondedFrom s)
         \<and> isStakingAddressValid native (StakedState.address s)"
proof -
  let ?N = "owAccountNonce (JNumber (StakedState.nonce s))"
  let ?U = "owUnixTimestamp (JNumber (unbondedFrom s))"
  have "owStakedState native (StakedState_object s)
      = ([IsStakingAddressValid (StakedState.address s)], Inr ())
     \<longleftrightarrow> ?N = ([], Inr ()) \<and> ?U = ([], Inr ())
         \<and> isStakingAddressValid native (StakedState.address s)"
    using ow_int16_untraced [of "JNumber (StakedState.nonce s)"]
      owUnixTimestamp_untraced [of "JNumber (unbondedFrom s)"]
    unfolding owStakedState_object
    by (cases ?N; cases ?U) (auto simp: owAccountNonce_def split: sum.splits)
  then show ?thesis
    by (simp only: owAccountNonce_def ow_int16_accepts owUnixTimestamp_accepts)
qed

text \<open>
  C3 (as amended). \<^verbatim>\<open>owStakedState\<close> tests \<^verbatim>\<open>bonded\<close> and \<^verbatim>\<open>unbonded\<close> with
  \<^verbatim>\<open>owBigNumber\<close>, which has no range. On the object of a \<^verbatim>\<open>StakedState\<close> value it
  accepts exactly when the nonce is an integer of the signed 16-bit range,
  \<^verbatim>\<open>unbondedFrom\<close> is an integer and the engine accepts the address; and the result of
  the WithdrawUnbonded validator, verdict and calls, is the same for every BigNumber in
  \<^verbatim>\<open>stakedState.unbonded\<close>, one above the ceiling included.
\<close>

theorem owStakedState_unbonded_unbounded:
  "(owStakedState native (StakedState_object s)
      = ([IsStakingAddressValid (StakedState.address s)], Inr ())
     \<longleftrightarrow> (\<exists>n::int. StakedState.nonce s = Finite (of_int n) \<and> - 32768 \<le> n \<and> n \<le> 32767)
         \<and> isInteger (unbondedFrom s)
         \<and> isStakingAddressValid native (StakedState.address s))
   \<and> owWithdrawUnbondedTransactionBuilderOptions native owFeeConfig owOptionalNetworkConfig
        (JObject ((''stakedState'', StakedState_object (s\<lparr>StakedState.unbonded := u\<rparr>)) # rest))
      = owWithdrawUnbondedTransactionBuilderOptions native owFeeConfig owOptionalNetworkConfig
        (JObject ((''stakedState'', StakedState_object s) # rest))"
proof -
  have "owStakedState native (StakedState_object (s\<lparr>StakedState.unbonded := u\<rparr>))
      = owStakedState native (StakedState_object s)"
    by (simp add: owStakedState_object split: prod.splits sum.splits)
  then have "owWithdrawUnbondedTransactionBuilderOptions native owFeeConfig owOptionalNetworkConfig
        (JObject ((''stakedState'', StakedState_object (s\<lparr>StakedState.unbonded := u\<rparr>)) # rest))
      = owWithdrawUnbondedTransactionBuilderOptions native owFeeConfig owOptionalNetworkConfig
        (JObject ((''stakedState'', StakedState_object s) # rest))"
    unfolding owWithdrawUnbondedTransactionBuilderOptions_def
    by (simp add: ow_object_def)
      (rule arg_cong [where f = "\<lambda>r. case r of (t, None) \<Rightarrow> (t, Inr ()) | (t, Some e) \<Rightarrow> (t, Inl e)"],
        rule exactShape_cong, auto)
  with owStakedState_accepts_iff show ?thesis by blast
qed

text \<open>
  The claim as the specification states it fails: with every other field valid, a
  WithdrawUnbonded option set whose \<^verbatim>\<open>stakedState.unbonded\<close> is one unit above the ceiling
  is accepted, after the address engine has been asked.
\<close>

theorem withdraw_unbonded_above_max_counterexample:
  "owWithdrawUnbondedTransactionBuilderOptions example_engine example_owFeeConfig
     example_owOptionalNetworkConfig
     (JObject [(''stakedState'', JObject
                 [(''nonce'', JNumber (Finite 1)),
                  (''bonded'', JBigNumber (Finite 0)),
                  (''unbonded'', JBigNumber (Finite (10 ^ 19 + 1))),
                  (''unbondedFrom'', JNumber (Finite 0)),
                  (''address'', JString ''0xstaking'')]),
               (''feeConfig'', JObject [])])
     = ([IsStakingAddressValid ''0xstaking''], Inr ())
   \<and> \<not> isLessThanOrEqualTo (Finite (10 ^ 19 + 1)) example_MAX_COIN_BN"
  by (simp add: owWithdrawUnbondedTransactionBuilderOptions_def owStakedState_def ow_object_def
      exactShape_def owBigNumber_BigNumber owStakingAddress_delegates ow_optional_def
      owAccountNonce_def owUnixTimestamp_def ow_number_def int16_def integer_def inRange_def
      check_def example_engine_def example_owFeeConfig_def example_owOptionalNetworkConfig_def
      example_MAX_COIN_BN_def isLessThanOrEqualTo_def)


theorem owStakedState_unbonded_unbounded_witness:
  "owStakedState example_engine
     (StakedState_object \<lparr> StakedState.nonce = Finite 1, bonded = Finite 0,
        unbonded = Finite (10 ^ 19 + 1), unbondedFrom = Finite 0, address = ''0xstaking'' \<rparr>)
     = ([IsStakingAddressValid ''0xstaking''], Inr ())
   \<and> owWithdrawUnbondedTransactionBuilderOptions example_engine example_owFeeConfig
        example_owOptionalNetworkConfig
        (JObject [(''stakedState'', StakedState_object
           \<lparr> StakedState.nonce = Finite 1, bonded = Finite 0,
             unbonded = Finite (10 ^ 19 + 1), unbondedFrom = Finite 0, address = ''0xstaking'' \<rparr>),
           (''feeConfig'', JObject [])])
      = owWithdrawUnbondedTransactionBuilderOptions example_engine example_owFeeConfig
        example_owOptionalNetworkConfig
        (JObject [(''stakedState'', StakedState_object
           \<lparr> StakedState.nonce = Finite 1, bonded = Finite 0,
             unbonded = Finite 5, unbondedFrom = Finite 0, address = ''0xstaking'' \<rparr>),
           (''feeConfig'', JObject [])])"
proof -
  have n: "\<exists>n::int. (Finite 1 :: number) = Finite (of_int n) \<and> - 32768 \<le> n \<and> n \<le> 32767"
    by (rule exI [of _ 1]) simp
  show ?thesis
    using n
      owStakedState_unbonded_unbounded [of example_engine
        "\<lparr> StakedState.nonce = Finite 1, bonded = Finite 0,
           unbonded = Finite (10 ^ 19 + 1), unbondedFrom = Finite 0, address = ''0xstaking'' \<rparr>"]
      owStakedState_unbonded_unbounded [of example_engine
        "\<lparr> StakedState.nonce = Finite 1, bonded = Finite 0,
           unbonded = Finite 5, unbondedFrom = Finite 0, address = ''0xstaking'' \<rparr>"
        example_owFeeConfig example_owOptionalNetworkConfig "Finite (10 ^ 19 + 1)"
        "[(''feeConfig'', JObject [])]"]
    by (simp add: example_engine_def)
qed

text \<open>
  C5 (as amended). In the Deposit and the Unbond option sets \<^verbatim>\<open>stakingAddress\<close> is
  \<^verbatim>\<open>ow.string\<close>: the result does not depend on which string it is, no prefix is resolved
  and no engine is asked for it; a value that is not a string is rejected. The
  WithdrawUnbonded option set has no such field; the address of its staked state goes
  to \<^verbatim>\<open>owStakingAddress\<close>, which hands every string to the engine's staking-address test
  as it is and returns the engine's verdict.
\<close>

theorem staking_address_field_checks:
  "owDepositTransactionOptions owOptionalNetworkConfig
      (JObject ((''stakingAddress'', JString s) # rest))
    = owDepositTransactionOptions owOptionalNetworkConfig
      (JObject ((''stakingAddress'', JString s') # rest))
   \<and> owUnbondTransactionBuilderOptions MAX_COIN_BN MAX_COIN_FORMATTED owOptionalNetworkConfig
      (JObject ((''stakingAddress'', JString s) # rest))
    = owUnbondTransactionBuilderOptions MAX_COIN_BN MAX_COIN_FORMATTED owOptionalNetworkConfig
      (JObject ((''stakingAddress'', JString s') # rest))
   \<and> ((\<forall>x. v \<noteq> JString x) \<longrightarrow>
        owDepositTransactionOptions owOptionalNetworkConfig
          (JObject ((''stakingAddress'', v) # rest))
        = ([], Inl (InProperty ''stakingAddress'' (NotOfType ''string'')))
      \<and> owUnbondTransactionBuilderOptions MAX_COIN_BN MAX_COIN_FORMATTED owOptionalNetworkConfig
          (JObject ((''stakingAddress'', v) # rest))
        = ([], Inl (InProperty ''stakingAddress'' (NotOfType ''string''))))
   \<and> owStakingAddress native (JString s) =
        ([IsStakingAddressValid s],
         if isStakingAddressValid native s then Inr ()
         else Inl (Message ''Expected value to be a valid staking address''))"
proof (intro conjI impI)
  show "owDepositTransactionOptions owOptionalNetworkConfig
      (JObject ((''stakingAddress'', JString s) # rest))
    = owDepositTransactionOptions owOptionalNetworkConfig
      (JObject ((''stakingAddress'', JString s') # rest))"
    unfolding owDepositTransactionOptions_def
    by (simp add: ow_object_def)
      (rule arg_cong [where f = "\<lambda>r. case r of (t, None) \<Rightarrow> (t, Inr ()) | (t, Some e) \<Rightarrow> (t, Inl e)"],
        rule exactShape_cong, auto simp: ow_string_any)
  show "owUnbondTransactionBuilderOptions MAX_COIN_BN MAX_COIN_FORMATTED owOptionalNetworkConfig
      (JObject ((''stakingAddress'', JString s) # rest))
    = owUnbondTransactionBuilderOptions MAX_COIN_BN MAX_COIN_FORMATTED owOptionalNetworkConfig
      (JObject ((''stakingAddress'', JString s') # rest))"
    unfolding owUnbondTransactionBuilderOptions_def
    by (simp add: ow_object_def)
      (rule arg_cong [where f = "\<lambda>r. case r of (t, None) \<Rightarrow> (t, Inr ()) | (t, Some e) \<Rightarrow> (t, Inl e)"],
        rule exactShape_cong, auto simp: ow_string_any)
next
  assume "\<forall>x. v \<noteq> JString x"
  then have v: "ow_string [] v = ([], Inl (NotOfType ''string''))"
    by (rule ow_string_not_string)
  show "owDepositTransactionOptions owOptionalNetworkConfig
          (JObject ((''stakingAddress'', v) # rest))
        = ([], Inl (InProperty ''stakingAddress'' (NotOfType ''string'')))"
    by (simp add: owDepositTransactionOptions_def ow_object_def exactShape_def v)
  show "owUnbondTransactionBuilderOptions MAX_COIN_BN MAX_COIN_FORMATTED owOptionalNetworkConfig
          (JObject ((''stakingAddress'', v) # rest))
        = ([], Inl (InProperty ''stakingAddress'' (NotOfType ''string'')))"
    by (simp add: owUnbondTransactionBuilderOptions_def ow_object_def exactShape_def v)
next
  show "owStakingAddress native (JString s) =
        ([IsStakingAddressValid s],
         if isStakingAddressValid native s then Inr ()
         else Inl (Message ''Expected value to be a valid staking address''))"
    by (rule owStakingAddress_delegates)
qed

lemma owCoin_example: "owCoin example_MAX_COIN_BN ''100,000,000,000'' (JBigNumber (Finite 1000)) = ([], Inr ())"
  by (simp add: owCoin_def ow_object_def validate_def no_throw_def example_MAX_COIN_BN_def
      isGreaterThanOrEqualTo_def isLessThanOrEqualTo_def)

text \<open>
  The claim as the specification states it fails: the Deposit and the Unbond validators
  accept the staking address \<^verbatim>\<open>xyz\<close>, which has none of the three prefixes, and ask no
  engine.
\<close>

theorem staking_address_dispatch_counterexample:
  "owDepositTransactionOptions example_owOptionalNetworkConfig
     (JObject [(''stakingAddress'', JString ''xyz'')]) = ([], Inr ())
   \<and> owUnbondTransactionBuilderOptions example_MAX_COIN_BN ''100,000,000,000''
     example_owOptionalNetworkConfig
     (JObject [(''stakingAddress'', JString ''xyz''), (''nonce'', JNumber (Finite 5)),
               (''amount'', JBigNumber (Finite 1000))]) = ([], Inr ())
   \<and> \<not> startsWith ''xyz'' ''cro'' \<and> \<not> startsWith ''xyz'' ''tcro''
   \<and> \<not> startsWith ''xyz'' ''dcro''"
  by (simp add: owDepositTransactionOptions_def owUnbondTransactionBuilderOptions_def
      example_owOptionalNetworkConfig_def ow_object_def ow_string_def ow_optional_def
      exactShape_def owCoin_example ow_number_def int16_def integer_def inRange_def check_def
      startsWith_def)

theorem staking_address_field_checks_witness:
  "owDepositTransactionOptions example_owOptionalNetworkConfig
      (JObject [(''stakingAddress'', JString ''0xstaking'')]) = ([], Inr ())
   \<and> owDepositTransactionOptions example_owOptionalNetworkConfig
      (JObject [(''stakingAddress'', JNumber (Finite 7))])
     = ([], Inl (InProperty ''stakingAddress'' (NotOfType ''string'')))
   \<and> owStakingAddress example_engine (JString ''0xstaking'')
     = ([IsStakingAddressValid ''0xstaking''], Inr ())"
proof -
  have ns: "\<forall>x. JNumber (Finite 7) \<noteq> JString x" by simp
  have acc: "owDepositTransactionOptions example_owOptionalNetworkConfig
     (JObject [(''stakingAddress'', JString ''xyz'')]) = ([], Inr ())"
    by (simp add: owDepositTransactionOptions_def example_owOptionalNetworkConfig_def
        ow_object_def ow_string_def ow_optional_def exactShape_def)
  show ?thesis
    using ns acc
      staking_address_field_checks [of example_owOptionalNetworkConfig "''0xstaking''" "[]"
        "''xyz''" _ _ "JNumber (Finite 7)" example_engine]
    by (simp add: example_engine_def)
qed

subsection \<open>Conversion of staked states\<close>

declare digits.simps [simp del]

lemma is_digit_digit_char: "d < 10 \<Longrightarrow> is_digit (digit_char d)"
  by (simp add: is_digit_def digit_char_def)

lemma digit_char_value: "d < 10 \<Longrightarrow> (of_char (digit_char d) :: nat) - 48 = d"
  by (simp add: digit_char_def)

lemma digits_all_digit: "list_all is_digit (digits n)"
proof (induction n rule: digits.induct)
  case (1 n)
  show ?case
  proof (cases "n < 10")
    case True
    then show ?thesis by (simp add: digits.simps [of n] is_digit_digit_char)
  next
    case False
    with 1 show ?thesis by (simp add: digits.simps [of n] is_digit_digit_char)
  qed
qed

lemma digits_nonempty: "digits n \<noteq> []"
  by (simp add: digits.simps [of n])

lemma nat_of_digits_snoc:
  "nat_of_digits (s @ [c]) = 10 * nat_of_digits s + (of_char c - 48)"
  by (simp add: nat_of_digits_def)

lemma nat_of_digits_digits: "nat_of_digits (digits n) = n"
proof (induction n rule: digits.induct)
  case (1 n)
  show ?case
  proof (cases "n < 10")
    case True
    then show ?thesis
      by (simp add: digits.simps [of n] nat_of_digits_def digit_char_value)
  next
    case False
    with 1 have "nat_of_digits (digits (n div 10)) = n div 10" by simp
    with False show ?thesis
      by (simp add: digits.simps [of n] nat_of_digits_snoc digit_char_value)
  qed
qed

lemma parse_unsigned_digits: "parse_unsigned (digits n) = Some (of_nat n)"
proof -
  have "\<forall>c\<in>set (digits n). is_digit c"
    using digits_all_digit [of n] by (simp add: list_all_iff)
  then have tw: "takeWhile is_digit (digits n) = digits n"
    and dw: "dropWhile is_digit (digits n) = []"
    by simp_all
  show ?thesis
    unfolding parse_unsigned_def tw dw
    by (simp add: digits_nonempty nat_of_digits_digits)
qed

lemma hd_digits_not_minus: "hd (digits n) \<noteq> CHR ''-''"
proof -
  have "is_digit (hd (digits n))"
    using digits_all_digit [of n] digits_nonempty [of n]
    by (cases "digits n") simp_all
  moreover have "\<not> is_digit CHR ''-''" by (simp add: is_digit_def)
  ultimately show ?thesis by metis
qed

lemma parse_decimal_digits: "parse_decimal (digits n) = Some (of_nat n)"
  by (simp add: parse_decimal_def hd_digits_not_minus parse_unsigned_digits)

lemma parse_decimal_minus_digits: "parse_decimal (CHR ''-'' # digits n) = Some (- of_nat n)"
  by (simp add: parse_decimal_def parse_unsigned_digits)

lemma round_half_up_of_nat: "round_half_up (of_nat k) = k"
proof -
  have "\<lfloor>(of_nat k :: rat) + 1 / 2\<rfloor> = int k"
    by (simp add: floor_unique)
  then show ?thesis by (simp add: round_half_up_def)
qed

lemma toFixedPoint_integer: "toFixedPoint (k * 10 ^ DECIMAL_PLACES) = digits k"
  by (simp add: toFixedPoint_def)

lemma toString10_integer:
  "toString10 (Finite (of_int m)) =
     (if m < 0 then CHR ''-'' # digits (nat \<bar>m\<bar>) else digits (nat \<bar>m\<bar>))"
proof -
  have "\<bar>of_int m :: rat\<bar> * 10 ^ DECIMAL_PLACES = of_nat (nat \<bar>m\<bar> * 10 ^ DECIMAL_PLACES)"
    by simp
  then have q: "round_half_up (\<bar>of_int m :: rat\<bar> * 10 ^ DECIMAL_PLACES)
      = nat \<bar>m\<bar> * 10 ^ DECIMAL_PLACES"
    by (simp only: round_half_up_of_nat)
  show ?thesis
    by (simp add: q toFixedPoint_integer Let_def del: of_int_abs)
qed

lemma new_BigNumber_decimal:
  "parse_decimal str = Some r \<Longrightarrow> new_BigNumber other str = Finite r"
  by (simp add: new_BigNumber_def)

lemma new_BigNumber_toString10_integer:
  "new_BigNumber other (toString10 (Finite (of_int m))) = Finite (of_int m)"
proof (cases "m < 0")
  case True
  then have "toString10 (Finite (of_int m)) = CHR ''-'' # digits (nat \<bar>m\<bar>)"
    by (simp only: toString10_integer if_True)
  moreover have "parse_decimal (CHR ''-'' # digits (nat \<bar>m\<bar>)) = Some (of_int m)"
    using True by (simp add: parse_decimal_minus_digits)
  ultimately show ?thesis by (simp only: new_BigNumber_decimal)
next
  case False
  then have "toString10 (Finite (of_int m)) = digits (nat \<bar>m\<bar>)"
    by (simp only: toString10_integer if_False)
  moreover have "parse_decimal (digits (nat \<bar>m\<bar>)) = Some (of_int m)"
    using False by (simp add: parse_decimal_digits)
  ultimately show ?thesis by (simp only: new_BigNumber_decimal)
qed


text \<open>
  C9 (as amended). Each conversion builds its result from the five fields alone: the
  result is the one for the argument cut down to these five fields, whatever further
  properties the argument carries. A \<^verbatim>\<open>punishment\<close> or \<^verbatim>\<open>councilNode\<close> sub-record of the
  argument is therefore not carried into the result, in either direction.
\<close>

theorem conversions_copy_five_fields:
  "parseStakedStateForNative s = parseStakedStateForNative (StakedState.truncate s)
   \<and> parseStakedStateForNodelib other ns
     = parseStakedStateForNodelib other (NativeStakedState.truncate ns)"
  by (simp add: parseStakedStateForNative_def parseStakedStateForNodelib_def
      StakedState.truncate_def NativeStakedState.truncate_def)

theorem conversions_copy_five_fields_witness:
  "parseStakedStateForNative example_jailed_state
     = \<lparr> NativeStakedState.nonce = Finite 3, bonded = ''5000'', unbonded = ''1000'',
         unbonded_from = Finite 1600000000, address = ''0xstaking'' \<rparr>
   \<and> parseStakedStateForNodelib example_other_literals example_native_jailed_state
     = \<lparr> StakedState.nonce = Finite 3, bonded = Finite 5000, unbonded = Finite 1000,
         unbondedFrom = Finite 1600000000, address = ''0xstaking'' \<rparr>"
proof -
  have d: "digits 5000 = ''5000''" "digits 1000 = ''1000''"
    by (simp_all add: digits.simps digit_char_def char_of_eq_iff)
  have t: "toString10 (Finite 5000) = ''5000''" "toString10 (Finite 1000) = ''1000''"
    using toString10_integer [of 5000] toString10_integer [of 1000] d by simp_all
  have n: "new_BigNumber example_other_literals ''5000'' = Finite 5000"
    "new_BigNumber example_other_literals ''1000'' = Finite 1000"
    using new_BigNumber_decimal [OF parse_decimal_digits [of 5000], where other = example_other_literals]
      new_BigNumber_decimal [OF parse_decimal_digits [of 1000], where other = example_other_literals] d
    by simp_all
  show ?thesis
    using conversions_copy_five_fields [of example_jailed_state example_other_literals
        example_native_jailed_state] t n
    by (simp add: parseStakedStateForNative_def parseStakedStateForNodelib_def
        StakedState.truncate_def NativeStakedState.truncate_def
        example_jailed_state_def example_native_jailed_state_def del: toString10.simps)
qed

text \<open>
  The claim as the specification states it fails: a staked state with both sub-records
  and the same state without them have the same native form, which has no property
  beyond its five fields; and the same holds for the conversion back.
\<close>

theorem subrecords_dropped_counterexample:
  "punishment example_jailed_state \<noteq> None
   \<and> councilNode example_jailed_state \<noteq> None
   \<and> parseStakedStateForNative example_jailed_state
     = parseStakedStateForNative (example_jailed_state\<lparr>punishment := None, councilNode := None\<rparr>)
   \<and> NativeStakedState.more (parseStakedStateForNative example_jailed_state) = ()
   \<and> native_punishment example_native_jailed_state \<noteq> None
   \<and> native_councilNode example_native_jailed_state \<noteq> None
   \<and> parseStakedStateForNodelib example_other_literals example_native_jailed_state
     = parseStakedStateForNodelib example_other_literals
         (example_native_jailed_state\<lparr>native_punishment := None, native_councilNode := None\<rparr>)
   \<and> StakedState.more (parseStakedStateForNodelib example_other_literals
         example_native_jailed_state) = ()"
  by (simp add: parseStakedStateForNative_def parseStakedStateForNodelib_def
      example_jailed_state_def example_native_jailed_state_def)


lemma digits_examples:
  "digits 10000000000000000001 = ''10000000000000000001''" "digits 5 = ''5''" "digits 0 = ''0''"
  by (simp_all add: digits.simps digit_char_def char_of_eq_iff)

lemma round_small_example: "round_half_up (\<bar>1 / 10 ^ 21\<bar> * 10 ^ 20) = 0"
  by code_simp

text \<open>
  The round trip below is stated for amounts that are integers, as every coin amount
  is. It is not exact for every BigNumber: \<^verbatim>\<open>toString(10)\<close> rounds at 20 decimal
  places, so \<open>1 / 10 ^ 21\<close> is written as \<^verbatim>\<open>0\<close>.
\<close>

lemma toString10_rounds_at_decimal_places:
  "toString10 (Finite (1 / 10 ^ 21)) = ''0''
   \<and> new_BigNumber other (toString10 (Finite (1 / 10 ^ 21))) = Finite 0"
proof -
  have "toFixedPoint 0 = ''0''"
    by (simp add: toFixedPoint_def digits_examples)
  then have s: "toString10 (Finite (1 / 10 ^ 21)) = ''0''"
    using round_small_example by (simp add: DECIMAL_PLACES_def)
  have "''0'' = digits 0" by (simp add: digits_examples)
  then have "parse_decimal ''0'' = Some 0"
    using parse_decimal_digits [of 0] by simp
  then have "new_BigNumber other ''0'' = Finite 0" by (rule new_BigNumber_decimal)
  with s show ?thesis by simp
qed

text \<open>
  C4. For every staked state whose \<^verbatim>\<open>bonded\<close> and \<^verbatim>\<open>unbonded\<close> amounts are integers
  (of any size and sign), \<^verbatim>\<open>parseStakedStateForNative\<close> followed by
  \<^verbatim>\<open>parseStakedStateForNodelib\<close> gives back both amounts exactly, and \<^verbatim>\<open>nonce\<close>,
  \<^verbatim>\<open>address\<close> and \<^verbatim>\<open>unbondedFrom\<close> unchanged.
\<close>

theorem staked_state_round_trip:
  assumes "isInteger (StakedState.bonded s)" and "isInteger (StakedState.unbonded s)"
  shows "StakedState.bonded (parseStakedStateForNodelib other (parseStakedStateForNative s))
           = StakedState.bonded s
       \<and> StakedState.unbonded (parseStakedStateForNodelib other (parseStakedStateForNative s))
           = StakedState.unbonded s
       \<and> StakedState.nonce (parseStakedStateForNodelib other (parseStakedStateForNative s))
           = StakedState.nonce s
       \<and> StakedState.address (parseStakedStateForNodelib other (parseStakedStateForNative s))
           = StakedState.address s
       \<and> unbondedFrom (parseStakedStateForNodelib other (parseStakedStateForNative s))
           = unbondedFrom s"
proof -
  from assms obtain b u :: int
    where b: "StakedState.bonded s = Finite (of_int b)"
      and u: "StakedState.unbonded s = Finite (of_int u)"
    by (auto simp: isInteger_iff)
  show ?thesis
    by (simp add: parseStakedStateForNodelib_def parseStakedStateForNative_def b u
        new_BigNumber_toString10_integer del: toString10.simps)
qed

theorem staked_state_round_trip_witness:
  "parseStakedStateForNodelib example_other_literals
     (parseStakedStateForNative
        \<lparr> StakedState.nonce = Finite 3, bonded = Finite (10 ^ 19), unbonded = Finite 0,
          unbondedFrom = Finite 1600000000, address = ''0xstaking'' \<rparr>)
   = \<lparr> StakedState.nonce = Finite 3, bonded = Finite (10 ^ 19), unbonded = Finite 0,
       unbondedFrom = Finite 1600000000, address = ''0xstaking'' \<rparr>"
proof -
  have i: "isInteger (Finite (10 ^ 19))" "isInteger (Finite 0)"
    by (simp_all add: isInteger_iff)
  show ?thesis
    using staked_state_round_trip [of
        "\<lparr> StakedState.nonce = Finite 3, bonded = Finite (10 ^ 19), unbonded = Finite 0,
           unbondedFrom = Finite 1600000000, address = ''0xstaking'' \<rparr>"
        example_other_literals] i
    by (simp add: StakedState.equality)
qed

text \<open>
  C10. \<^verbatim>\<open>parseStakedStateForNodelib\<close> has a result for every native staked state and
  checks nothing: \<^verbatim>\<open>nonce\<close>, \<^verbatim>\<open>unbonded_from\<close> and \<^verbatim>\<open>address\<close> are copied as they are,
  whatever their values, and each amount is whatever the BigNumber constructor reads
  from the string. The decimal string of any integer is read as that integer, with no
  bound; the witness converts a nonce outside the 16-bit range, an amount above the
  ceiling, a negative amount and an address the engine rejects.
\<close>

theorem parseStakedStateForNodelib_unchecked:
  "StakedState.nonce (parseStakedStateForNodelib other ns) = NativeStakedState.nonce ns
   \<and> unbondedFrom (parseStakedStateForNodelib other ns) = unbonded_from ns
   \<and> StakedState.address (parseStakedStateForNodelib other ns) = NativeStakedState.address ns
   \<and> StakedState.bonded (parseStakedStateForNodelib other ns)
       = new_BigNumber other (NativeStakedState.bonded ns)
   \<and> StakedState.unbonded (parseStakedStateForNodelib other ns)
       = new_BigNumber other (NativeStakedState.unbonded ns)
   \<and> new_BigNumber other (digits k) = Finite (of_nat k)
   \<and> new_BigNumber other (CHR ''-'' # digits k) = Finite (- of_nat k)"
  by (simp add: parseStakedStateForNodelib_def parse_decimal_digits parse_decimal_minus_digits
      new_BigNumber_decimal)


theorem parseStakedStateForNodelib_unchecked_witness:
  "parseStakedStateForNodelib example_other_literals
     \<lparr> NativeStakedState.nonce = Finite 40000, bonded = ''10000000000000000001'',
       unbonded = ''abc'', unbonded_from = Finite 0, address = ''not an address'' \<rparr>
   = \<lparr> StakedState.nonce = Finite 40000, bonded = Finite (10 ^ 19 + 1),
       unbonded = NaN, unbondedFrom = Finite 0, address = ''not an address'' \<rparr>
   \<and> new_BigNumber example_other_literals ''-5'' = Finite (- 5)
   \<and> owAccountNonce (JNumber (Finite 40000)) \<noteq> ([], Inr ())
   \<and> owCoin example_MAX_COIN_BN ''100,000,000,000'' (JBigNumber (Finite (10 ^ 19 + 1)))
       \<noteq> ([], Inr ())
   \<and> snd (owStakingAddress example_engine (JString ''not an address'')) \<noteq> Inr ()"
proof -
  have v: "owAccountNonce (JNumber (Finite 40000)) \<noteq> ([], Inr ())"
    "owCoin example_MAX_COIN_BN ''100,000,000,000'' (JBigNumber (Finite (10 ^ 19 + 1)))
       \<noteq> ([], Inr ())"
    "snd (owStakingAddress example_engine (JString ''not an address'')) \<noteq> Inr ()"
    by (simp_all add: owAccountNonce_def ow_number_def int16_def integer_def inRange_def
        check_def owCoin_def ow_object_def validate_def no_throw_def example_MAX_COIN_BN_def
        isGreaterThanOrEqualTo_def isLessThanOrEqualTo_def owStakingAddress_delegates
        example_engine_def)
  have w: "new_BigNumber example_other_literals ''abc'' = NaN"
    by (simp add: new_BigNumber_def parse_decimal_def parse_unsigned_def is_digit_def
        example_other_literals_def)
  show ?thesis
    using v w digits_examples
      parseStakedStateForNodelib_unchecked [of example_other_literals
        "\<lparr> NativeStakedState.nonce = Finite 40000, bonded = ''10000000000000000001'',
           unbonded = ''abc'', unbonded_from = Finite 0, address = ''not an address'' \<rparr>"
        "10000000000000000001"]
      parseStakedStateForNodelib_unchecked [of example_other_literals
        "\<lparr> NativeStakedState.nonce = Finite 40000, bonded = ''10000000000000000001'',
           unbonded = ''abc'', unbonded_from = Finite 0, address = ''not an address'' \<rparr>"
        5]
    by (simp add: StakedState.equality)
qed

end
